theory Spec2Isabelle
  imports Main
begin

section \<open>The Knex-like query-builder shim over the remote store\<close>

text \<open>
  The shim of \<^verbatim>\<open>src/backend/routes/auth/auth/logout.js\<close> (from line 10 on) builds a
  descriptor by chained calls and, at a terminal call, turns it into one chain of calls
  on the remote client (\<^verbatim>\<open>supabase.from(...)...\<close>), awaits it and normalises the answer.

  The remote client is not part of the repository: it is a parameter here, a function from
  the chain of calls it received to its answer. Every operation returns, besides its
  result, the list of remote queries it awaited and the lines it wrote to the console, so
  that "which query was sent" and "no remote call was made" are statements about values.
\<close>

subsection \<open>Values\<close>

text \<open>
  The JavaScript values that occur as filter values and as attributes of rows. The
  numbers among them are integers, and are only passed on; an object is the list of its
  attributes in order.
\<close>

datatype jsval = JNull | JUndefined | JBool bool | JNum int | JStr string

type_synonym row = "(string \<times> jsval) list"

text \<open>
  The bounds of a descriptor are integers, held in JavaScript numbers, which are IEEE 754
  doubles: every sum and difference is the exact one rounded to the nearest double, ties
  to the even significand of 53 bits, and to an infinity from \<open>2 ^ 1024\<close> on. A result
  of the arithmetic on integers is an integer or an infinity.
\<close>

datatype jsnum = Fin int | PosInfinity | NegInfinity

fun bit_length :: "nat \<Rightarrow> nat" where
  "bit_length n = (if n = 0 then 0 else Suc (bit_length (n div 2)))"

declare bit_length.simps [simp del]

definition double_round :: "int \<Rightarrow> jsnum" where
  "double_round x =
     (if \<bar>x\<bar> < 2 ^ 53 then Fin x
      else
        (let a = nat \<bar>x\<bar>;
             e = bit_length a - 53;
             q = a div 2 ^ e;
             r = a mod 2 ^ e;
             half = 2 ^ (e - 1);
             q = (if half < r \<or> (r = half \<and> odd q) then q + 1 else q);
             m = q * 2 ^ e
         in if 2 ^ 1024 \<le> m then (if x < 0 then NegInfinity else PosInfinity)
            else Fin (if x < 0 then - int m else int m)))"

text \<open>\<^verbatim>\<open>a + b\<close> of two integers, and \<^verbatim>\<open>x - b\<close> of a result and an integer.\<close>

definition js_add :: "int \<Rightarrow> int \<Rightarrow> jsnum" where
  "js_add a b = double_round (a + b)"

definition js_sub :: "jsnum \<Rightarrow> int \<Rightarrow> jsnum" where
  "js_sub x b =
     (case x of
        Fin a \<Rightarrow> double_round (a - b)
      | PosInfinity \<Rightarrow> PosInfinity
      | NegInfinity \<Rightarrow> NegInfinity)"

text \<open>An error object of the remote client. An object is truthy, whatever it holds.\<close>

datatype remote_error = RemoteError (err_code: string) (err_message: string)

subsection \<open>The remote client\<close>

text \<open>
  One call on the remote query object. \<^verbatim>\<open>.select()\<close> without an argument is
  \<open>Select None\<close>; \<^verbatim>\<open>.order(field, { ascending: b })\<close> is \<open>Order field b\<close>.
\<close>

datatype call =
    From string
  | Select "string option"
  | Insert "row option"
  | Update "row option"
  | Delete
  | Eq string jsval
  | Order string bool
  | Limit int
  | Range int jsnum

type_synonym query = "call list"

text \<open>
  What awaiting a remote query gives: the object \<^verbatim>\<open>{ data, error }\<close> (each of them
  possibly null or missing, which is \<open>None\<close>), or a thrown error (a rejected promise).
\<close>

datatype response =
    Returned "row list option" "remote_error option"
  | Thrown remote_error

type_synonym remote = "query \<Rightarrow> response"

text \<open>The outcome of an asynchronous operation: \<open>Inl e\<close> is a promise rejected with \<open>e\<close>.\<close>

record 'a outcome =
  result :: "remote_error + 'a"
  requests :: "query list"
  logged :: "string list"

subsection \<open>The descriptor\<close>

text \<open>
  The state of \<^verbatim>\<open>queryBuilder\<close>: the fields \<^verbatim>\<open>_table\<close>, \<^verbatim>\<open>_wheres\<close>, ... carry the
  prefix \<open>qb\<close> here. An entry \<^verbatim>\<open>{ field, value }\<close> or \<^verbatim>\<open>{ field, direction }\<close> is a pair.
  \<open>None\<close> is \<^verbatim>\<open>null\<close>.
\<close>

record query_builder =
  qb_table :: string
  qb_wheres :: "(string \<times> jsval) list"
  qb_orders :: "(string \<times> string) list"
  qb_limit :: "int option"
  qb_offset :: "int option"
  qb_inserts :: "row option"
  qb_updates :: "row option"

definition createQueryBuilder :: "string \<Rightarrow> query_builder" where
  "createQueryBuilder tableName =
     \<lparr>qb_table = tableName, qb_wheres = [], qb_orders = [], qb_limit = None,
      qb_offset = None, qb_inserts = None, qb_updates = None\<rparr>"

definition db :: "string \<Rightarrow> query_builder" where
  "db tableName = createQueryBuilder tableName"

subsection \<open>Chainable methods\<close>

text \<open>
  Each method mutates the descriptor and returns it: the model returns the new state.
  An omitted argument of \<^verbatim>\<open>orderBy\<close> is \<open>None\<close>, and takes the default \<^verbatim>\<open>'asc'\<close>.
\<close>

definition where_qb :: "string \<Rightarrow> jsval \<Rightarrow> query_builder \<Rightarrow> query_builder" where
  "where_qb field val qb = qb\<lparr>qb_wheres := qb_wheres qb @ [(field, val)]\<rparr>"

definition orderBy :: "string \<Rightarrow> string option \<Rightarrow> query_builder \<Rightarrow> query_builder" where
  "orderBy field direction qb =
     (let direction = (case direction of None \<Rightarrow> ''asc'' | Some d \<Rightarrow> d)
      in qb\<lparr>qb_orders := qb_orders qb @ [(field, direction)]\<rparr>)"

definition limit :: "int \<Rightarrow> query_builder \<Rightarrow> query_builder" where
  "limit l qb = qb\<lparr>qb_limit := Some l\<rparr>"

definition offset :: "int \<Rightarrow> query_builder \<Rightarrow> query_builder" where
  "offset off qb = qb\<lparr>qb_offset := Some off\<rparr>"

subsection \<open>Execution\<close>

text \<open>The loop \<^verbatim>\<open>for (const where of this._wheres) query = query.eq(...)\<close>.\<close>

fun apply_wheres :: "query \<Rightarrow> (string \<times> jsval) list \<Rightarrow> query" where
  "apply_wheres query [] = query"
| "apply_wheres query (w # ws) = apply_wheres (query @ [Eq (fst w) (snd w)]) ws"

text \<open>
  \<^verbatim>\<open>this._limit || 1000\<close>: the left operand unless it is falsy; of the values of the
  field, \<^verbatim>\<open>null\<close> and \<^verbatim>\<open>0\<close> are falsy.
\<close>

definition limit_or_1000 :: "int option \<Rightarrow> int" where
  "limit_or_1000 l = (case l of None \<Rightarrow> 1000 | Some n \<Rightarrow> if n = 0 then 1000 else n)"

text \<open>The remote query that \<^verbatim>\<open>_runSelect\<close> builds before it awaits it (lines 75 to 95).\<close>

definition runSelect_query :: "query_builder \<Rightarrow> string \<Rightarrow> query" where
  "runSelect_query qb columns =
     (let query = [From (qb_table qb), Select (Some columns)];
          query = apply_wheres query (qb_wheres qb);
          query = (case qb_orders qb of
                     [] \<Rightarrow> query
                   | (field, direction) # _ \<Rightarrow> query @ [Order field (direction = ''asc'')]);
          query = (case qb_limit qb of
                     None \<Rightarrow> query
                   | Some l \<Rightarrow> query @ [Limit l]);
          query = (case qb_offset qb of
                     None \<Rightarrow> query
                   | Some off \<Rightarrow>
                       query @ [Range off (js_sub (js_add off (limit_or_1000 (qb_limit qb))) 1)])
      in query)"

definition runSelect :: "remote \<Rightarrow> query_builder \<Rightarrow> string option \<Rightarrow> row list outcome" where
  "runSelect rem qb columns =
     (let columns = (case columns of None \<Rightarrow> ''*'' | Some c \<Rightarrow> c);
          query = runSelect_query qb columns
      in \<lparr>result =
            (case rem query of
               Thrown e \<Rightarrow> Inl e
             | Returned data error \<Rightarrow>
                 (case error of
                    Some e \<Rightarrow> Inl e
                  | None \<Rightarrow> Inr (case data of None \<Rightarrow> [] | Some rows \<Rightarrow> rows))),
          requests = [query], logged = []\<rparr>)"

text \<open>\<^verbatim>\<open>item.id\<close>: the attribute, or \<^verbatim>\<open>undefined\<close> when the row has none.\<close>

definition item_id :: "row \<Rightarrow> jsval" where
  "item_id item = (case map_of item ''id'' of None \<Rightarrow> JUndefined | Some v \<Rightarrow> v)"

definition runInsert :: "remote \<Rightarrow> query_builder \<Rightarrow> jsval list outcome" where
  "runInsert rem qb =
     (let query = [From (qb_table qb), Insert (qb_inserts qb), Select None]
      in \<lparr>result =
            (case rem query of
               Thrown e \<Rightarrow> Inl e
             | Returned data error \<Rightarrow>
                 (case error of
                    Some e \<Rightarrow> Inl e
                  | None \<Rightarrow> Inr (case data of None \<Rightarrow> [] | Some rows \<Rightarrow> map item_id rows))),
          requests = [query], logged = []\<rparr>)"

definition runUpdate_query :: "query_builder \<Rightarrow> query" where
  "runUpdate_query qb =
     (let query = [From (qb_table qb), Update (qb_updates qb)];
          query = apply_wheres query (qb_wheres qb)
      in query)"

definition runUpdate :: "remote \<Rightarrow> query_builder \<Rightarrow> int outcome" where
  "runUpdate rem qb =
     (let query = runUpdate_query qb
      in \<lparr>result =
            (case rem query of
               Thrown e \<Rightarrow> Inl e
             | Returned data error \<Rightarrow>
                 (case error of
                    Some e \<Rightarrow> Inl e
                  | None \<Rightarrow> Inr (case data of None \<Rightarrow> 0 | Some rows \<Rightarrow> 1))),
          requests = [query], logged = []\<rparr>)"

definition runDelete_query :: "query_builder \<Rightarrow> query" where
  "runDelete_query qb =
     (let query = [From (qb_table qb), Delete];
          query = apply_wheres query (qb_wheres qb)
      in query)"

definition runDelete :: "remote \<Rightarrow> query_builder \<Rightarrow> int outcome" where
  "runDelete rem qb =
     (let query = runDelete_query qb
      in \<lparr>result =
            (case rem query of
               Thrown e \<Rightarrow> Inl e
             | Returned data error \<Rightarrow>
                 (case error of
                    Some e \<Rightarrow> Inl e
                  | None \<Rightarrow> Inr 1)),
          requests = [query], logged = []\<rparr>)"

subsection \<open>Terminal methods\<close>

text \<open>
  A terminal method that assigns a field before it runs returns the descriptor as it
  left it, beside the outcome.
\<close>

definition insert_qb :: "remote \<Rightarrow> row \<Rightarrow> query_builder \<Rightarrow> jsval list outcome \<times> query_builder" where
  "insert_qb rem data qb =
     (let qb = qb\<lparr>qb_inserts := Some data\<rparr> in (runInsert rem qb, qb))"

definition update :: "remote \<Rightarrow> row \<Rightarrow> query_builder \<Rightarrow> int outcome \<times> query_builder" where
  "update rem data qb =
     (let qb = qb\<lparr>qb_updates := Some data\<rparr> in (runUpdate rem qb, qb))"

definition delete :: "remote \<Rightarrow> query_builder \<Rightarrow> int outcome" where
  "delete rem qb = runDelete rem qb"

definition select :: "remote \<Rightarrow> string option \<Rightarrow> query_builder \<Rightarrow> row list outcome" where
  "select rem columns qb = runSelect rem qb columns"

text \<open>
  \<^verbatim>\<open>data[0] || null\<close>: a row is an object, hence truthy; \<^verbatim>\<open>data[0]\<close> of an empty array
  is \<^verbatim>\<open>undefined\<close>, hence \<^verbatim>\<open>null\<close>, which is \<open>None\<close>.
\<close>

definition first :: "remote \<Rightarrow> query_builder \<Rightarrow> row option outcome \<times> query_builder" where
  "first rem qb =
     (let qb = qb\<lparr>qb_limit := Some 1\<rparr>;
          ran = runSelect rem qb None
      in (\<lparr>result =
             (case result ran of
                Inl e \<Rightarrow> Inl e
              | Inr data \<Rightarrow> Inr (case data of [] \<Rightarrow> None | r # _ \<Rightarrow> Some r)),
           requests = requests ran, logged = logged ran\<rparr>, qb))"

text \<open>
  The descriptor is thenable: awaiting it calls \<^verbatim>\<open>then\<close>, which runs \<^verbatim>\<open>_runSelect()\<close>
  and hands its value to \<^verbatim>\<open>resolve\<close>, its error to \<^verbatim>\<open>reject\<close>.
\<close>

definition then_qb :: "remote \<Rightarrow> query_builder \<Rightarrow> row list outcome" where
  "then_qb rem qb = runSelect rem qb None"

subsection \<open>Raw queries and the schema probe\<close>

definition db_raw :: "string \<Rightarrow> row list outcome" where
  "db_raw sql =
     (if sql = ''SELECT 1'' then
        \<lparr>result = Inr [[(''1'', JNum 1)]], requests = [], logged = []\<rparr>
      else
        \<lparr>result =
           Inr [[(''message'', JStr ''Raw SQL queries are not directly supported with Supabase'')]],
         requests = [],
         logged = [''[SUPABASE SHIM] Raw SQL not directly supported: '' @ sql]\<rparr>)"

definition hasTable :: "remote \<Rightarrow> string \<Rightarrow> bool outcome" where
  "hasTable rem tableName =
     (let query = [From tableName, Select (Some ''count''), Limit 1]
      in \<lparr>result =
            (case rem query of
               Thrown e \<Rightarrow> Inr False
             | Returned data error \<Rightarrow>
                 Inr (case error of Some e \<Rightarrow> False | None \<Rightarrow> True)),
          requests = [query], logged = []\<rparr>)"

subsection \<open>Sequences of chained calls\<close>

text \<open>
  The claims speak of sequences of chained calls made on a fresh descriptor. A call of a
  chainable method is a value here, and \<open>chain\<close> makes the calls of a list from left
  to right, as \<^verbatim>\<open>db(t).where(...).orderBy(...)...\<close> does.
\<close>

datatype chain_call =
    CWhere string jsval
  | COrderBy string "string option"
  | CLimit int
  | COffset int

fun call_method :: "chain_call \<Rightarrow> query_builder \<Rightarrow> query_builder" where
  "call_method (CWhere field val) qb = where_qb field val qb"
| "call_method (COrderBy field direction) qb = orderBy field direction qb"
| "call_method (CLimit l) qb = limit l qb"
| "call_method (COffset off) qb = offset off qb"

fun chain :: "chain_call list \<Rightarrow> query_builder \<Rightarrow> query_builder" where
  "chain [] qb = qb"
| "chain (c # cs) qb = chain cs (call_method c qb)"

text \<open>The arguments of the \<^verbatim>\<open>where\<close> calls, and of the \<^verbatim>\<open>orderBy\<close> calls, of a sequence.\<close>

fun where_args :: "chain_call list \<Rightarrow> (string \<times> jsval) list" where
  "where_args [] = []"
| "where_args (CWhere field val # cs) = (field, val) # where_args cs"
| "where_args (_ # cs) = where_args cs"

fun orderBy_args :: "chain_call list \<Rightarrow> (string \<times> string option) list" where
  "orderBy_args [] = []"
| "orderBy_args (COrderBy field direction # cs) = (field, direction) # orderBy_args cs"
| "orderBy_args (_ # cs) = orderBy_args cs"

fun is_orderBy :: "chain_call \<Rightarrow> bool" where
  "is_orderBy (COrderBy _ _) = True"
| "is_orderBy _ = False"

text \<open>What a remote query was asked, primitive by primitive, in the order of the calls.\<close>

fun eq_calls :: "query \<Rightarrow> (string \<times> jsval) list" where
  "eq_calls [] = []"
| "eq_calls (Eq field val # q) = (field, val) # eq_calls q"
| "eq_calls (_ # q) = eq_calls q"

fun order_calls :: "query \<Rightarrow> (string \<times> bool) list" where
  "order_calls [] = []"
| "order_calls (Order field ascending # q) = (field, ascending) # order_calls q"
| "order_calls (_ # q) = order_calls q"

fun limit_calls :: "query \<Rightarrow> int list" where
  "limit_calls [] = []"
| "limit_calls (Limit l # q) = l # limit_calls q"
| "limit_calls (_ # q) = limit_calls q"

fun range_calls :: "query \<Rightarrow> (int \<times> jsnum) list" where
  "range_calls [] = []"
| "range_calls (Range a b # q) = (a, b) # range_calls q"
| "range_calls (_ # q) = range_calls q"

text \<open>
  The bound that the \<^verbatim>\<open>limit\<close> calls (the \<^verbatim>\<open>offset\<close> calls) of a sequence leave, from the
  one the descriptor had: each call overwrites the one before.
\<close>

fun last_limit :: "int option \<Rightarrow> chain_call list \<Rightarrow> int option" where
  "last_limit l [] = l"
| "last_limit l (CLimit n # cs) = last_limit (Some n) cs"
| "last_limit l (_ # cs) = last_limit l cs"

fun last_offset :: "int option \<Rightarrow> chain_call list \<Rightarrow> int option" where
  "last_offset off [] = off"
| "last_offset off (COffset n # cs) = last_offset (Some n) cs"
| "last_offset off (_ # cs) = last_offset off cs"

section \<open>Properties\<close>

subsection \<open>Arithmetic of the bounds\<close>

text \<open>Below \<open>2 ^ 53\<close> in magnitude every integer is a double, and the arithmetic is exact.\<close>

lemma js_range_end_exact:
  assumes "\<bar>a + b\<bar> < 2 ^ 53" and "\<bar>a + b - c\<bar> < 2 ^ 53"
  shows "js_sub (js_add a b) c = Fin (a + b - c)"
  using assms by (simp add: js_add_def js_sub_def double_round_def)

lemma bit_length_eq:
  "2 ^ k \<le> n \<Longrightarrow> n < 2 ^ Suc k \<Longrightarrow> bit_length n = Suc k"
proof (induction k arbitrary: n)
  case 0
  then have "n = 1" by simp
  then show ?case by (simp add: bit_length.simps)
next
  case (Suc k)
  have "2 ^ k \<le> n div 2" and "n div 2 < 2 ^ Suc k"
    using Suc.prems by simp_all
  then have "bit_length (n div 2) = Suc k"
    by (rule Suc.IH)
  moreover have "n \<noteq> 0"
    using Suc.prems by auto
  ultimately show ?case
    by (subst bit_length.simps) simp
qed

text \<open>
  From \<open>2 ^ 53\<close> on it rounds: \<^verbatim>\<open>2 ** 53 + 1000 - 1\<close> is \<^verbatim>\<open>9007199254741992\<close>, one more
  than the integer \<open>2 ^ 53 + 999\<close>.
\<close>

lemma js_range_end_rounds: "js_sub (js_add (2 ^ 53) 1000) 1 = Fin 9007199254741992"
proof -
  have "bit_length 9007199254741992 = 54"
    using bit_length_eq [of 53 9007199254741992] by simp
  moreover have "bit_length 9007199254741991 = 54"
    using bit_length_eq [of 53 9007199254741991] by simp
  ultimately show ?thesis
    by (simp add: js_add_def js_sub_def double_round_def Let_def)
qed

subsection \<open>The remote query of a read\<close>

lemma apply_wheres_eq: "apply_wheres q ws = q @ map (\<lambda>w. Eq (fst w) (snd w)) ws"
  by (induction ws arbitrary: q) simp_all

lemma eq_calls_append: "eq_calls (p @ q) = eq_calls p @ eq_calls q"
  by (induction p rule: eq_calls.induct) simp_all

lemma order_calls_append: "order_calls (p @ q) = order_calls p @ order_calls q"
  by (induction p rule: order_calls.induct) simp_all

lemma limit_calls_append: "limit_calls (p @ q) = limit_calls p @ limit_calls q"
  by (induction p rule: limit_calls.induct) simp_all

lemma range_calls_append: "range_calls (p @ q) = range_calls p @ range_calls q"
  by (induction p rule: range_calls.induct) simp_all

lemma eq_calls_wheres: "eq_calls (map (\<lambda>w. Eq (fst w) (snd w)) ws) = ws"
  by (induction ws) simp_all

lemma order_calls_wheres: "order_calls (map (\<lambda>w. Eq (fst w) (snd w)) ws) = []"
  by (induction ws) simp_all

lemma limit_calls_wheres: "limit_calls (map (\<lambda>w. Eq (fst w) (snd w)) ws) = []"
  by (induction ws) simp_all

lemma range_calls_wheres: "range_calls (map (\<lambda>w. Eq (fst w) (snd w)) ws) = []"
  by (induction ws) simp_all

lemmas calls_simps =
  eq_calls_append order_calls_append limit_calls_append range_calls_append
  eq_calls_wheres order_calls_wheres limit_calls_wheres range_calls_wheres

lemma eq_calls_runSelect_query: "eq_calls (runSelect_query qb columns) = qb_wheres qb"
  by (simp add: runSelect_query_def Let_def apply_wheres_eq calls_simps
      split: list.split option.split prod.split)

lemma order_calls_runSelect_query:
  "order_calls (runSelect_query qb columns) =
     (case qb_orders qb of [] \<Rightarrow> [] | (field, direction) # _ \<Rightarrow> [(field, direction = ''asc'')])"
  by (simp add: runSelect_query_def Let_def apply_wheres_eq calls_simps
      split: list.split option.split prod.split)

lemma limit_calls_runSelect_query:
  "limit_calls (runSelect_query qb columns) =
     (case qb_limit qb of None \<Rightarrow> [] | Some l \<Rightarrow> [l])"
  by (simp add: runSelect_query_def Let_def apply_wheres_eq calls_simps
      split: list.split option.split prod.split)

lemma range_calls_runSelect_query:
  "range_calls (runSelect_query qb columns) =
     (case qb_offset qb of None \<Rightarrow> []
      | Some off \<Rightarrow> [(off, js_sub (js_add off (limit_or_1000 (qb_limit qb))) 1)])"
  by (simp add: runSelect_query_def Let_def apply_wheres_eq calls_simps
      split: list.split option.split prod.split)

text \<open>Every read trigger awaits exactly one remote query, the one of \<^verbatim>\<open>_runSelect\<close>.\<close>

lemma requests_runSelect:
  "requests (runSelect rem qb columns) =
     [runSelect_query qb (case columns of None \<Rightarrow> ''*'' | Some c \<Rightarrow> c)]"
  by (simp add: runSelect_def Let_def)

lemma requests_select:
  "requests (select rem columns qb) =
     [runSelect_query qb (case columns of None \<Rightarrow> ''*'' | Some c \<Rightarrow> c)]"
  by (simp add: select_def requests_runSelect)

lemma requests_then: "requests (then_qb rem qb) = [runSelect_query qb ''*'']"
  by (simp add: then_qb_def requests_runSelect)

lemma requests_first:
  "requests (fst (first rem qb)) = [runSelect_query (qb\<lparr>qb_limit := Some 1\<rparr>) ''*'']"
  by (simp add: first_def Let_def requests_runSelect)

subsection \<open>What a sequence of chained calls leaves in the descriptor\<close>

lemma chain_append: "chain (cs @ ds) qb = chain ds (chain cs qb)"
  by (induction cs arbitrary: qb) simp_all

lemma qb_wheres_chain: "qb_wheres (chain cs qb) = qb_wheres qb @ where_args cs"
proof (induction cs arbitrary: qb)
  case Nil
  show ?case by simp
next
  case (Cons c cs)
  show ?case
    by (cases c) (simp_all add: Cons.IH where_qb_def orderBy_def limit_def offset_def)
qed

lemma qb_orders_chain:
  "qb_orders (chain cs qb) =
     qb_orders qb @
     map (\<lambda>(field, d). (field, case d of None \<Rightarrow> ''asc'' | Some x \<Rightarrow> x)) (orderBy_args cs)"
proof (induction cs arbitrary: qb)
  case Nil
  show ?case by simp
next
  case (Cons c cs)
  show ?case
    by (cases c) (simp_all add: Cons.IH where_qb_def orderBy_def limit_def offset_def)
qed

text \<open>Leaving the later \<^verbatim>\<open>orderBy\<close> calls out of a sequence changes the orders recorded, and nothing else.\<close>

lemma qb_orders_chain_db:
  "qb_orders (chain cs (db t)) =
     map (\<lambda>(field, d). (field, case d of None \<Rightarrow> ''asc'' | Some x \<Rightarrow> x)) (orderBy_args cs)"
  by (simp add: qb_orders_chain db_def createQueryBuilder_def)

lemma orderBy_args_append: "orderBy_args (cs @ ds) = orderBy_args cs @ orderBy_args ds"
  by (induction cs rule: orderBy_args.induct) simp_all

lemma where_args_append: "where_args (cs @ ds) = where_args cs @ where_args ds"
  by (induction cs rule: where_args.induct) simp_all

lemma chain_eq:
  "chain cs qb =
     qb\<lparr>qb_wheres := qb_wheres qb @ where_args cs,
        qb_orders := qb_orders qb @
          map (\<lambda>(field, d). (field, case d of None \<Rightarrow> ''asc'' | Some x \<Rightarrow> x)) (orderBy_args cs),
        qb_limit := last_limit (qb_limit qb) cs,
        qb_offset := last_offset (qb_offset qb) cs\<rparr>"
proof (induction cs arbitrary: qb)
  case Nil
  show ?case by simp
next
  case (Cons c cs)
  show ?case
    by (cases c) (simp_all add: Cons.IH where_qb_def orderBy_def limit_def offset_def)
qed

lemma orderBy_args_filter: "orderBy_args (filter (\<lambda>c. \<not> is_orderBy c) cs) = []"
  by (induction cs rule: orderBy_args.induct) simp_all

lemma where_args_filter: "where_args (filter (\<lambda>c. \<not> is_orderBy c) cs) = where_args cs"
  by (induction cs rule: where_args.induct) simp_all

lemma last_limit_filter: "last_limit l (filter (\<lambda>c. \<not> is_orderBy c) cs) = last_limit l cs"
  by (induction l cs rule: last_limit.induct) simp_all

lemma last_offset_filter: "last_offset off (filter (\<lambda>c. \<not> is_orderBy c) cs) = last_offset off cs"
  by (induction off cs rule: last_offset.induct) simp_all

lemma last_limit_append: "last_limit l (cs @ ds) = last_limit (last_limit l cs) ds"
  by (induction l cs rule: last_limit.induct) simp_all

lemma last_offset_append: "last_offset off (cs @ ds) = last_offset (last_offset off cs) ds"
  by (induction off cs rule: last_offset.induct) simp_all

lemma runSelect_query_cong:
  assumes "qb_table a = qb_table b" and "qb_wheres a = qb_wheres b"
    and "qb_orders a = x # xs" and "qb_orders b = x # ys"
    and "qb_limit a = qb_limit b" and "qb_offset a = qb_offset b"
  shows "runSelect_query a columns = runSelect_query b columns"
  using assms by (simp add: runSelect_query_def Let_def split: option.split prod.split)

lemma chain_later_orderBy:
  assumes "orderBy_args pre = []"
  shows "qb_table (chain (pre @ COrderBy field direction # post) (db t)) =
         qb_table (chain (pre @ COrderBy field direction # filter (\<lambda>c. \<not> is_orderBy c) post) (db t))"
    and "qb_wheres (chain (pre @ COrderBy field direction # post) (db t)) =
         qb_wheres (chain (pre @ COrderBy field direction # filter (\<lambda>c. \<not> is_orderBy c) post) (db t))"
    and "qb_limit (chain (pre @ COrderBy field direction # post) (db t)) =
         qb_limit (chain (pre @ COrderBy field direction # filter (\<lambda>c. \<not> is_orderBy c) post) (db t))"
    and "qb_offset (chain (pre @ COrderBy field direction # post) (db t)) =
         qb_offset (chain (pre @ COrderBy field direction # filter (\<lambda>c. \<not> is_orderBy c) post) (db t))"
    and "qb_orders (chain (pre @ COrderBy field direction # post) (db t)) =
           (field, case direction of None \<Rightarrow> ''asc'' | Some x \<Rightarrow> x) #
           map (\<lambda>(field, d). (field, case d of None \<Rightarrow> ''asc'' | Some x \<Rightarrow> x)) (orderBy_args post)"
    and "qb_orders (chain (pre @ COrderBy field direction # filter (\<lambda>c. \<not> is_orderBy c) post) (db t)) =
           (field, case direction of None \<Rightarrow> ''asc'' | Some x \<Rightarrow> x) # []"
  using assms
  by (simp_all add: chain_eq orderBy_args_append where_args_append last_limit_append
      last_offset_append orderBy_args_filter where_args_filter last_limit_filter
      last_offset_filter db_def createQueryBuilder_def)

lemma runSelect_query_later_orderBy:
  assumes "orderBy_args pre = []"
  shows "runSelect_query (chain (pre @ COrderBy field direction # post) (db t)) columns =
         runSelect_query
           (chain (pre @ COrderBy field direction # filter (\<lambda>c. \<not> is_orderBy c) post) (db t))
           columns"
    and "runSelect_query
           ((chain (pre @ COrderBy field direction # post) (db t))\<lparr>qb_limit := Some 1\<rparr>) columns =
         runSelect_query
           ((chain (pre @ COrderBy field direction # filter (\<lambda>c. \<not> is_orderBy c) post) (db t))
              \<lparr>qb_limit := Some 1\<rparr>)
           columns"
proof -
  note c = chain_later_orderBy [OF assms, of field direction post t]
  show "runSelect_query (chain (pre @ COrderBy field direction # post) (db t)) columns =
         runSelect_query
           (chain (pre @ COrderBy field direction # filter (\<lambda>c. \<not> is_orderBy c) post) (db t))
           columns"
    by (rule runSelect_query_cong [OF c(1) c(2) c(5) c(6) c(3) c(4)])
  show "runSelect_query
           ((chain (pre @ COrderBy field direction # post) (db t))\<lparr>qb_limit := Some 1\<rparr>) columns =
         runSelect_query
           ((chain (pre @ COrderBy field direction # filter (\<lambda>c. \<not> is_orderBy c) post) (db t))
              \<lparr>qb_limit := Some 1\<rparr>)
           columns"
    by (rule runSelect_query_cong) (simp_all add: c)
qed

subsection \<open>Filters\<close>

text \<open>
  Claim C1. Whatever chainable calls are made on a fresh descriptor, each read trigger
  (\<^verbatim>\<open>select\<close>, \<^verbatim>\<open>first\<close>, awaiting the descriptor) awaits one remote query, and the
  equality filters applied to that query are exactly the arguments of the \<^verbatim>\<open>where\<close>
  calls: one \<^verbatim>\<open>eq\<close> per call, in the order of the calls. The filters are chained on one
  query, each narrowing the one before, which is how the remote client conjoins them.
\<close>

theorem where_calls_become_eq_filters:
  "map eq_calls (requests (select rem columns (chain cs (db t)))) = [where_args cs] \<and>
   map eq_calls (requests (fst (first rem (chain cs (db t))))) = [where_args cs] \<and>
   map eq_calls (requests (then_qb rem (chain cs (db t)))) = [where_args cs]"
  by (simp add: requests_select requests_first requests_then eq_calls_runSelect_query
      qb_wheres_chain db_def createQueryBuilder_def)

subsection \<open>Range and limit\<close>

text \<open>
  Claim C2. The claim gives, for a read with offset \<open>n\<close>, the range from \<open>n\<close> to
  \<open>n + L - 1\<close>, with \<open>L\<close> the limit when one is set and \<open>1000\<close> otherwise. The code
  agrees with it when no limit is set (\<^verbatim>\<open>offset(20)\<close>: rows 20 to 1019) and when the
  limit is not \<open>0\<close> (\<^verbatim>\<open>limit(10).offset(20)\<close>: rows 20 to 29), and it sends \<^verbatim>\<open>limit(0)\<close>
  as it is set, with or without an offset. It departs from the claim at
  \<^verbatim>\<open>limit(0).offset(20)\<close>: beside \<^verbatim>\<open>limit(0)\<close> the query carries the range from 20 to
  1019, where the claim gives 20 to 19.
\<close>

theorem limit_zero_offset_range_evaluated:
  "map limit_calls
     (requests (select (\<lambda>q. Returned None None) None (offset 20 (limit 0 (db ''users''))))) =
     [[0]] \<and>
   map range_calls
     (requests (select (\<lambda>q. Returned None None) None (offset 20 (limit 0 (db ''users''))))) =
     [[(20, Fin 1019)]] \<and>
   map range_calls
     (requests (select (\<lambda>q. Returned None None) None (offset 20 (limit 0 (db ''users''))))) \<noteq>
     [[(20, Fin (20 + 0 - 1))]] \<and>
   map limit_calls
     (requests (select (\<lambda>q. Returned None None) None (limit 0 (db ''users'')))) = [[0]] \<and>
   map range_calls
     (requests (select (\<lambda>q. Returned None None) None (limit 0 (db ''users'')))) = [[]] \<and>
   map range_calls
     (requests (select (\<lambda>q. Returned None None) None (offset 20 (limit 10 (db ''users''))))) =
     [[(20, Fin 29)]] \<and>
   map range_calls
     (requests (select (\<lambda>q. Returned None None) None (offset 20 (db ''users'')))) =
     [[(20, Fin 1019)]]"
  by (simp add: requests_select range_calls_runSelect_query limit_calls_runSelect_query
      limit_or_1000_def js_range_end_exact offset_def limit_def db_def createQueryBuilder_def)




subsection \<open>Ordering\<close>

text \<open>
  Claim C5. Let a sequence of chained calls on a fresh descriptor have its first
  \<^verbatim>\<open>orderBy\<close> call after \<open>pre\<close> and before \<open>post\<close>. The descriptor records every
  \<^verbatim>\<open>orderBy\<close> call, in order; the remote query is sorted by the first call's field and
  direction only; and each read trigger gives the very outcome (remote query and result)
  it gives when the later \<^verbatim>\<open>orderBy\<close> calls are left out of the sequence.
\<close>


theorem later_orderBy_recorded_not_applied:
  assumes "orderBy_args pre = []"
  shows "qb_orders (chain (pre @ COrderBy field direction # post) (db t)) =
           (field, case direction of None \<Rightarrow> ''asc'' | Some x \<Rightarrow> x) #
           map (\<lambda>(field, d). (field, case d of None \<Rightarrow> ''asc'' | Some x \<Rightarrow> x)) (orderBy_args post) \<and>
         map order_calls
           (requests (select rem columns (chain (pre @ COrderBy field direction # post) (db t)))) =
           [[(field, (case direction of None \<Rightarrow> ''asc'' | Some x \<Rightarrow> x) = ''asc'')]] \<and>
         select rem columns (chain (pre @ COrderBy field direction # post) (db t)) =
           select rem columns
             (chain (pre @ COrderBy field direction # filter (\<lambda>c. \<not> is_orderBy c) post) (db t)) \<and>
         fst (first rem (chain (pre @ COrderBy field direction # post) (db t))) =
           fst (first rem
             (chain (pre @ COrderBy field direction # filter (\<lambda>c. \<not> is_orderBy c) post) (db t))) \<and>
         then_qb rem (chain (pre @ COrderBy field direction # post) (db t)) =
           then_qb rem
             (chain (pre @ COrderBy field direction # filter (\<lambda>c. \<not> is_orderBy c) post) (db t))"
proof -
  have recorded: "orderBy_args (pre @ COrderBy field direction # post) =
      (field, direction) # orderBy_args post"
    using assms by (simp add: orderBy_args_append)
  note q = runSelect_query_later_orderBy [OF assms, of field direction post t]
  have "qb_orders (chain (pre @ COrderBy field direction # post) (db t)) =
           (field, case direction of None \<Rightarrow> ''asc'' | Some x \<Rightarrow> x) #
           map (\<lambda>(field, d). (field, case d of None \<Rightarrow> ''asc'' | Some x \<Rightarrow> x)) (orderBy_args post)"
    by (simp add: qb_orders_chain_db recorded)
  moreover have "map order_calls
           (requests (select rem columns (chain (pre @ COrderBy field direction # post) (db t)))) =
           [[(field, (case direction of None \<Rightarrow> ''asc'' | Some x \<Rightarrow> x) = ''asc'')]]"
    by (simp add: requests_select order_calls_runSelect_query qb_orders_chain_db recorded)
  moreover have "select rem columns (chain (pre @ COrderBy field direction # post) (db t)) =
           select rem columns
             (chain (pre @ COrderBy field direction # filter (\<lambda>c. \<not> is_orderBy c) post) (db t))"
    by (simp add: select_def runSelect_def q(1))
  moreover have "fst (first rem (chain (pre @ COrderBy field direction # post) (db t))) =
           fst (first rem
             (chain (pre @ COrderBy field direction # filter (\<lambda>c. \<not> is_orderBy c) post) (db t)))"
    by (simp add: first_def Let_def runSelect_def q(2))
  moreover have "then_qb rem (chain (pre @ COrderBy field direction # post) (db t)) =
           then_qb rem
             (chain (pre @ COrderBy field direction # filter (\<lambda>c. \<not> is_orderBy c) post) (db t))"
    by (simp add: then_qb_def runSelect_def q(1))
  ultimately show ?thesis by blast
qed

theorem later_orderBy_recorded_not_applied_witness:
  "orderBy_args [CWhere ''team'' (JNum 7)] = [] \<and>
   qb_orders (chain ([CWhere ''team'' (JNum 7)] @ COrderBy ''name'' (Some ''desc'') #
       [COrderBy ''age'' None, CLimit 5]) (db ''users'')) =
     [(''name'', ''desc''), (''age'', ''asc'')] \<and>
   map order_calls (requests (select (\<lambda>q. Returned None None) None
     (chain ([CWhere ''team'' (JNum 7)] @ COrderBy ''name'' (Some ''desc'') #
       [COrderBy ''age'' None, CLimit 5]) (db ''users'')))) = [[(''name'', False)]] \<and>
   select (\<lambda>q. Returned None None) None
     (chain ([CWhere ''team'' (JNum 7)] @ COrderBy ''name'' (Some ''desc'') #
       [COrderBy ''age'' None, CLimit 5]) (db ''users'')) =
   select (\<lambda>q. Returned None None) None
     (chain ([CWhere ''team'' (JNum 7)] @ COrderBy ''name'' (Some ''desc'') #
       filter (\<lambda>c. \<not> is_orderBy c) [COrderBy ''age'' None, CLimit 5]) (db ''users''))"
proof -
  have a: "orderBy_args [CWhere ''team'' (JNum 7)] = []"
    by simp
  note inst = later_orderBy_recorded_not_applied [OF a, where field = "''name''"
        and direction = "Some ''desc''" and post = "[COrderBy ''age'' None, CLimit 5]"
        and t = "''users''" and rem = "\<lambda>q. Returned None None" and columns = None]
  have recorded: "qb_orders (chain ([CWhere ''team'' (JNum 7)] @ COrderBy ''name'' (Some ''desc'') #
       [COrderBy ''age'' None, CLimit 5]) (db ''users'')) =
     [(''name'', ''desc''), (''age'', ''asc'')]"
    using inst by simp
  have applied: "map order_calls (requests (select (\<lambda>q. Returned None None) None
     (chain ([CWhere ''team'' (JNum 7)] @ COrderBy ''name'' (Some ''desc'') #
       [COrderBy ''age'' None, CLimit 5]) (db ''users'')))) = [[(''name'', False)]]"
    using conjunct1 [OF conjunct2 [OF inst]] by simp
  from a recorded applied conjunct1 [OF conjunct2 [OF conjunct2 [OF inst]]]
  show ?thesis by (intro conjI)
qed

text \<open>
  Claim C10. The remote sort of a read is ascending exactly when the direction of the
  first \<^verbatim>\<open>orderBy\<close> call is omitted (the default \<^verbatim>\<open>'asc'\<close>) or is the string
  \<^verbatim>\<open>'asc'\<close>; for every other direction it is descending.
\<close>


theorem ascending_iff_asc:
  assumes "orderBy_args cs = (field, direction) # later"
  shows "map order_calls (requests (select rem columns (chain cs (db t)))) =
           [[(field, direction = None \<or> direction = Some ''asc'')]] \<and>
         map order_calls (requests (fst (first rem (chain cs (db t))))) =
           [[(field, direction = None \<or> direction = Some ''asc'')]] \<and>
         map order_calls (requests (then_qb rem (chain cs (db t)))) =
           [[(field, direction = None \<or> direction = Some ''asc'')]]"
  using assms
  by (cases direction)
    (simp_all add: requests_select requests_first requests_then order_calls_runSelect_query
      qb_orders_chain_db)

theorem ascending_iff_asc_witness:
  "orderBy_args [COrderBy ''name'' (Some ''ascending'')] = [(''name'', Some ''ascending'')] \<and>
   map order_calls
     (requests (select (\<lambda>q. Returned None None) None
        (chain [COrderBy ''name'' (Some ''ascending'')] (db ''users'')))) = [[(''name'', False)]] \<and>
   map order_calls
     (requests (select (\<lambda>q. Returned None None) None
        (chain [COrderBy ''name'' (Some ''ASC'')] (db ''users'')))) = [[(''name'', False)]] \<and>
   map order_calls
     (requests (select (\<lambda>q. Returned None None) None
        (chain [COrderBy ''name'' (Some ''asc'')] (db ''users'')))) = [[(''name'', True)]] \<and>
   map order_calls
     (requests (select (\<lambda>q. Returned None None) None
        (chain [COrderBy ''name'' None] (db ''users'')))) = [[(''name'', True)]]"
proof -
  have a: "orderBy_args [COrderBy ''name'' d] = (''name'', d) # []" for d
    by simp
  show ?thesis
    using ascending_iff_asc [OF a, where rem = "\<lambda>q. Returned None None" and columns = None
        and t = "''users''" and direction = "Some ''ascending''"]
      ascending_iff_asc [OF a, where rem = "\<lambda>q. Returned None None" and columns = None
        and t = "''users''" and direction = "Some ''ASC''"]
      ascending_iff_asc [OF a, where rem = "\<lambda>q. Returned None None" and columns = None
        and t = "''users''" and direction = "Some ''asc''"]
      ascending_iff_asc [OF a, where rem = "\<lambda>q. Returned None None" and columns = None
        and t = "''users''" and direction = None]
    by simp
qed

subsection \<open>The first row\<close>

text \<open>
  Claim C3. \<^verbatim>\<open>first\<close> leaves the limit \<open>1\<close> in the descriptor and awaits the read query
  of that descriptor, in which \<^verbatim>\<open>limit\<close> is called with \<open>1\<close>. When the remote answers
  with rows and no error, the value is the first of them; when it answers with no row (an
  empty array or no data) and no error, the value is \<^verbatim>\<open>null\<close>, neither an error nor
  an empty sequence.
\<close>


theorem first_row_or_null:
  "snd (first rem qb) = limit 1 qb \<and>
   requests (fst (first rem qb)) = [runSelect_query (limit 1 qb) ''*''] \<and>
   map limit_calls (requests (fst (first rem qb))) = [[1]] \<and>
   (rem (runSelect_query (limit 1 qb) ''*'') = Returned (Some (r # rs)) None \<longrightarrow>
      result (fst (first rem qb)) = Inr (Some r)) \<and>
   (rem (runSelect_query (limit 1 qb) ''*'') = Returned (Some []) None \<longrightarrow>
      result (fst (first rem qb)) = Inr None) \<and>
   (rem (runSelect_query (limit 1 qb) ''*'') = Returned None None \<longrightarrow>
      result (fst (first rem qb)) = Inr None)"
  by (simp add: first_def runSelect_def Let_def limit_def limit_calls_runSelect_query)

theorem first_row_or_null_witness:
  "result (fst (first (\<lambda>q. Returned (Some [[(''id'', JNum 4)], [(''id'', JNum 9)]]) None)
     (db ''users''))) = Inr (Some [(''id'', JNum 4)]) \<and>
   result (fst (first (\<lambda>q. Returned (Some []) None) (db ''users''))) = Inr None \<and>
   result (fst (first (\<lambda>q. Returned None None) (db ''users''))) = Inr None"
  using first_row_or_null [where rem = "\<lambda>q. Returned (Some [[(''id'', JNum 4)], [(''id'', JNum 9)]]) None"
      and qb = "db ''users''" and r = "[(''id'', JNum 4)]" and rs = "[[(''id'', JNum 9)]]"]
    first_row_or_null [where rem = "\<lambda>q. Returned (Some []) None" and qb = "db ''users''"]
    first_row_or_null [where rem = "\<lambda>q. Returned None None" and qb = "db ''users''"]
  by simp

subsection \<open>Updates\<close>

text \<open>
  Claim C4, as amended. When the remote answers an update without an error, the count
  returned is \<open>1\<close> if the data of the answer is not null (an array of rows, even an
  empty one) and \<open>0\<close> if it is null or missing: it does not count the rows.
\<close>

theorem update_count_is_zero_or_one:
  assumes "rem (runUpdate_query (qb\<lparr>qb_updates := Some payload\<rparr>)) = Returned data None"
  shows "result (fst (update rem payload qb)) = Inr (if data = None then 0 else 1)"
  using assms by (simp add: update_def runUpdate_def Let_def split: option.split)

theorem update_count_is_zero_or_one_witness:
  "result (fst (update
      (\<lambda>q. Returned (Some [[(''id'', JNum 1)], [(''id'', JNum 2)], [(''id'', JNum 3)]]) None)
      [(''active'', JBool False)] (db ''users''))) = Inr 1 \<and>
   result (fst (update (\<lambda>q. Returned (Some []) None)
      [(''active'', JBool False)] (db ''users''))) = Inr 1 \<and>
   result (fst (update (\<lambda>q. Returned None None)
      [(''active'', JBool False)] (db ''users''))) = Inr 0"
  using update_count_is_zero_or_one
      [where rem = "\<lambda>q. Returned (Some [[(''id'', JNum 1)], [(''id'', JNum 2)], [(''id'', JNum 3)]]) None"
        and data = "Some [[(''id'', JNum 1)], [(''id'', JNum 2)], [(''id'', JNum 3)]]"
        and payload = "[(''active'', JBool False)]" and qb = "db ''users''"]
    update_count_is_zero_or_one
      [where rem = "\<lambda>q. Returned (Some []) None" and data = "Some []"
        and payload = "[(''active'', JBool False)]" and qb = "db ''users''"]
    update_count_is_zero_or_one
      [where rem = "\<lambda>q. Returned None None" and data = None
        and payload = "[(''active'', JBool False)]" and qb = "db ''users''"]
  by simp

text \<open>
  The claim as first stated gives \<open>1\<close> only when data was returned. An answer with an
  empty array returns no row, and the count is \<open>1\<close> all the same.
\<close>

theorem update_count_empty_array_counterexample:
  "result (fst (update (\<lambda>q. Returned (Some []) None)
      [(''active'', JBool False)] (db ''users''))) = Inr 1 \<and>
   result (fst (update (\<lambda>q. Returned (Some []) None)
      [(''active'', JBool False)] (db ''users''))) \<noteq> Inr 0"
  by (simp add: update_def runUpdate_def Let_def)

subsection \<open>Raw queries\<close>

text \<open>
  Claim C6. The raw query \<^verbatim>\<open>SELECT 1\<close> resolves to the one row with attribute \<^verbatim>\<open>1\<close>
  of value 1. Every other string resolves to the row holding the message that raw
  queries are not supported, and no remote query is awaited.
\<close>


theorem raw_select_1_or_placeholder:
  "result (db_raw ''SELECT 1'') = Inr [[(''1'', JNum 1)]] \<and>
   (sql \<noteq> ''SELECT 1'' \<longrightarrow>
      result (db_raw sql) =
        Inr [[(''message'', JStr ''Raw SQL queries are not directly supported with Supabase'')]] \<and>
      requests (db_raw sql) = [])"
  by (simp add: db_raw_def)

theorem raw_select_1_or_placeholder_witness:
  "''select 1'' \<noteq> ''SELECT 1'' \<and>
   result (db_raw ''select 1'') =
     Inr [[(''message'', JStr ''Raw SQL queries are not directly supported with Supabase'')]] \<and>
   requests (db_raw ''select 1'') = []"
  using raw_select_1_or_placeholder [of "''select 1''"] by simp

subsection \<open>The schema probe\<close>

text \<open>
  Claim C7. \<^verbatim>\<open>hasTable\<close> awaits the count query limited to one row, and answers true
  exactly when the remote returned no error; an error returned and an error thrown both
  make it answer false, whatever the error is.
\<close>


theorem hasTable_iff_no_error:
  "requests (hasTable rem tableName) = [[From tableName, Select (Some ''count''), Limit 1]] \<and>
   result (hasTable rem tableName) =
     Inr (\<exists>data. rem [From tableName, Select (Some ''count''), Limit 1] = Returned data None) \<and>
   (rem [From tableName, Select (Some ''count''), Limit 1] = Returned data (Some e) \<longrightarrow>
      result (hasTable rem tableName) = Inr False) \<and>
   (rem [From tableName, Select (Some ''count''), Limit 1] = Thrown e \<longrightarrow>
      result (hasTable rem tableName) = Inr False)"
  by (auto simp add: hasTable_def Let_def split: response.split option.split)

theorem hasTable_iff_no_error_witness:
  "result (hasTable
      (\<lambda>q. Returned None (Some (RemoteError ''42501'' ''permission denied for table users'')))
      ''users'') = Inr False \<and>
   result (hasTable (\<lambda>q. Thrown (RemoteError ''ENETDOWN'' ''fetch failed'')) ''users'') = Inr False \<and>
   result (hasTable (\<lambda>q. Returned (Some [[(''count'', JNum 3)]]) None) ''users'') = Inr True"
  using hasTable_iff_no_error [where tableName = "''users''" and data = None
      and e = "RemoteError ''42501'' ''permission denied for table users''"
      and rem = "\<lambda>q. Returned None (Some (RemoteError ''42501'' ''permission denied for table users''))"]
    hasTable_iff_no_error [where tableName = "''users''"
      and e = "RemoteError ''ENETDOWN'' ''fetch failed''"
      and rem = "\<lambda>q. Thrown (RemoteError ''ENETDOWN'' ''fetch failed'')"]
    hasTable_iff_no_error [where tableName = "''users''"
      and rem = "\<lambda>q. Returned (Some [[(''count'', JNum 3)]]) None"]
  by simp

subsection \<open>Remote errors\<close>

text \<open>
  Claim C8. In each terminal execution (\<^verbatim>\<open>select\<close>, an awaited descriptor,
  \<^verbatim>\<open>first\<close>, \<^verbatim>\<open>insert\<close>, \<^verbatim>\<open>update\<close>, \<^verbatim>\<open>delete\<close>), when the remote answers the
  query with an error object, the promise is rejected with that very object, and the one
  query is all that was awaited.
\<close>


theorem remote_error_thrown_unchanged:
  "(rem (runSelect_query qb (case columns of None \<Rightarrow> ''*'' | Some c \<Rightarrow> c)) = Returned data (Some e) \<longrightarrow>
      result (select rem columns qb) = Inl e \<and> length (requests (select rem columns qb)) = 1) \<and>
   (rem (runSelect_query qb ''*'') = Returned data (Some e) \<longrightarrow>
      result (then_qb rem qb) = Inl e \<and> length (requests (then_qb rem qb)) = 1) \<and>
   (rem (runSelect_query (limit 1 qb) ''*'') = Returned data (Some e) \<longrightarrow>
      result (fst (first rem qb)) = Inl e \<and> length (requests (fst (first rem qb))) = 1) \<and>
   (rem [From (qb_table qb), Insert (Some payload), Select None] = Returned data (Some e) \<longrightarrow>
      result (fst (insert_qb rem payload qb)) = Inl e \<and>
      length (requests (fst (insert_qb rem payload qb))) = 1) \<and>
   (rem (runUpdate_query (qb\<lparr>qb_updates := Some payload\<rparr>)) = Returned data (Some e) \<longrightarrow>
      result (fst (update rem payload qb)) = Inl e \<and>
      length (requests (fst (update rem payload qb))) = 1) \<and>
   (rem (runDelete_query qb) = Returned data (Some e) \<longrightarrow>
      result (delete rem qb) = Inl e \<and> length (requests (delete rem qb)) = 1)"
  by (simp add: select_def then_qb_def first_def insert_qb_def update_def delete_def
      runSelect_def runInsert_def runUpdate_def runDelete_def Let_def limit_def)

theorem remote_error_thrown_unchanged_witness:
  "result (select (\<lambda>q. Returned None (Some (RemoteError ''500'' ''boom''))) None (db ''users'')) =
     Inl (RemoteError ''500'' ''boom'') \<and>
   result (then_qb (\<lambda>q. Returned None (Some (RemoteError ''500'' ''boom''))) (db ''users'')) =
     Inl (RemoteError ''500'' ''boom'') \<and>
   result (fst (first (\<lambda>q. Returned None (Some (RemoteError ''500'' ''boom''))) (db ''users''))) =
     Inl (RemoteError ''500'' ''boom'') \<and>
   result (fst (insert_qb (\<lambda>q. Returned None (Some (RemoteError ''500'' ''boom'')))
       [(''name'', JStr ''x'')] (db ''users''))) =
     Inl (RemoteError ''500'' ''boom'') \<and>
   result (fst (update (\<lambda>q. Returned None (Some (RemoteError ''500'' ''boom'')))
       [(''name'', JStr ''x'')] (db ''users''))) =
     Inl (RemoteError ''500'' ''boom'') \<and>
   result (delete (\<lambda>q. Returned None (Some (RemoteError ''500'' ''boom''))) (db ''users'')) =
     Inl (RemoteError ''500'' ''boom'')"
  using remote_error_thrown_unchanged [where
      rem = "\<lambda>q. Returned None (Some (RemoteError ''500'' ''boom''))" and qb = "db ''users''"
      and columns = None and data = None and e = "RemoteError ''500'' ''boom''"
      and payload = "[(''name'', JStr ''x'')]"]
  by simp

end
